theory Spec2Isabelle
  imports Main
begin

section \<open>Bytes, strings and errors\<close>

text \<open>
  A Go \<^verbatim>\<open>string\<close> and a Go \<^verbatim>\<open>[]byte\<close> are both sequences of bytes, and
  \<^verbatim>\<open>len\<close> counts bytes. An Isabelle \<^typ>\<open>char\<close> is one byte, so both are modelled as
  \<^typ>\<open>char list\<close>; the conversion \<^verbatim>\<open>[]byte(s)\<close> is the identity. A nil slice and
  an empty slice are both \<^term>\<open>[]\<close>; where the code tests a slice against nil (the result
  of a bucket lookup) the model uses \<^typ>\<open>'a option\<close>.
\<close>

type_synonym bytes = "char list"

text \<open>
  Go errors. The four sentinel errors of package \<^verbatim>\<open>data\<close> are constructors of their
  own, so that the comparisons \<^verbatim>\<open>err == NickConflictErr\<close> of the source are
  equalities of the model. \<open>ErrorString\<close> is \<^verbatim>\<open>errors.New\<close>/\<^verbatim>\<open>errors.Errorf\<close> with
  the formatted message, \<open>Wrap e m\<close> is \<^verbatim>\<open>errors.Wrap(e, m)\<close>.
\<close>

datatype error =
    InvalidNickDataErr
  | NewerNickDataPresentErr
  | NickConflictErr
  | InvalidNodeIdErr
  | ErrorString string
  | Wrap error string

section \<open>Regular expressions\<close>

text \<open>
  The fragment of Go's \<^verbatim>\<open>regexp/syntax\<close> that \<^verbatim>\<open>nickRegexp\<close> uses: character
  classes given by inclusive ranges, concatenation, \<^verbatim>\<open>x+\<close>, \<^verbatim>\<open>x{n}\<close>. Matching is
  by derivatives. Go decodes the subject as UTF-8 and compares runes; a class of ASCII
  ranges matches a rune exactly when the rune is a single byte in one of the ranges, so
  on such classes matching bytes is the same.
\<close>

datatype regexp =
    NoMatch
  | EmptyMatch
  | CharClass "(char \<times> char) list"
  | Alternate regexp regexp
  | Concat regexp regexp
  | Star regexp

definition Plus :: "regexp \<Rightarrow> regexp" where
  "Plus r = Concat r (Star r)"

fun Repeat :: "nat \<Rightarrow> regexp \<Rightarrow> regexp" where
  "Repeat 0 r = EmptyMatch"
| "Repeat (Suc n) r = Concat r (Repeat n r)"

fun in_range :: "char \<Rightarrow> char \<times> char \<Rightarrow> bool" where
  "in_range c (lo, hi) = ((of_char lo :: nat) \<le> of_char c \<and> (of_char c :: nat) \<le> of_char hi)"

definition in_class :: "(char \<times> char) list \<Rightarrow> char \<Rightarrow> bool" where
  "in_class rs c = list_ex (in_range c) rs"

fun nullable :: "regexp \<Rightarrow> bool" where
  "nullable NoMatch = False"
| "nullable EmptyMatch = True"
| "nullable (CharClass rs) = False"
| "nullable (Alternate r s) = (nullable r \<or> nullable s)"
| "nullable (Concat r s) = (nullable r \<and> nullable s)"
| "nullable (Star r) = True"

fun deriv :: "char \<Rightarrow> regexp \<Rightarrow> regexp" where
  "deriv c NoMatch = NoMatch"
| "deriv c EmptyMatch = NoMatch"
| "deriv c (CharClass rs) = (if in_class rs c then EmptyMatch else NoMatch)"
| "deriv c (Alternate r s) = Alternate (deriv c r) (deriv c s)"
| "deriv c (Concat r s) =
     (if nullable r then Alternate (Concat (deriv c r) s) (deriv c s)
      else Concat (deriv c r) s)"
| "deriv c (Star r) = Concat (deriv c r) (Star r)"

fun full_match :: "regexp \<Rightarrow> string \<Rightarrow> bool" where
  "full_match r [] = nullable r"
| "full_match r (c # cs) = full_match (deriv c r) cs"

text \<open>
  \<^verbatim>\<open>regexp.MustCompile(`^[a-zA-Z]{1}[a-zA-Z0-9\_\-\[\]]+$`)\<close>. The pattern starts
  with \<^verbatim>\<open>^\<close> and ends with \<^verbatim>\<open>$\<close> and sets no flag, so the two anchors stand for the
  beginning and the end of the text: \<^verbatim>\<open>MatchString\<close>, which looks for a match anywhere
  in the subject, succeeds exactly when the part between the anchors matches the whole
  subject.
\<close>

definition nickRegexp :: regexp where
  "nickRegexp =
     Concat
       (Repeat 1 (CharClass [(CHR ''a'', CHR ''z''), (CHR ''A'', CHR ''Z'')]))
       (Plus (CharClass [(CHR ''a'', CHR ''z''), (CHR ''A'', CHR ''Z''), (CHR ''0'', CHR ''9''),
                         (CHR ''_'', CHR ''_''), (CHR ''-'', CHR ''-''),
                         (CHR ''['', CHR ''[''), (CHR '']'', CHR '']'')]))"

definition MatchString :: "regexp \<Rightarrow> string \<Rightarrow> bool" where
  "MatchString r s = full_match r s"

section \<open>Nicknames\<close>

definition minNickLength :: nat where
  "minNickLength = 3"

definition maxNickLength :: nat where
  "maxNickLength = 20"

text \<open>\<^verbatim>\<open>ValidateNick\<close>: \<open>None\<close> is the nil error.\<close>

definition ValidateNick :: "string \<Rightarrow> error option" where
  "ValidateNick nick =
     (if length nick < minNickLength then
        Some (ErrorString ''nick needs to be at least 3 characters long'')
      else if length nick > maxNickLength then
        Some (ErrorString ''nick needs to be at most 20 characters long'')
      else if \<not> MatchString nickRegexp nick then
        Some (ErrorString ''nick does not match the regular expression'')
      else None)"

text \<open>The character classes as the specification words them.\<close>

definition is_letter :: "char \<Rightarrow> bool" where
  "is_letter c = (c \<in> set ''abcdefghijklmnopqrstuvwxyzABCDEFGHIJKLMNOPQRSTUVWXYZ'')"

definition is_digit :: "char \<Rightarrow> bool" where
  "is_digit c = (c \<in> set ''0123456789'')"

definition is_nick_char :: "char \<Rightarrow> bool" where
  "is_nick_char c = (is_letter c \<or> is_digit c \<or> c \<in> set ''_-[]'')"

section \<open>Time\<close>

text \<open>
  A \<^verbatim>\<open>time.Time\<close> is an instant with nanosecond resolution: \<open>sec\<close> is the number of
  seconds since January 1, 1970 UTC and \<open>nsec\<close> the nanoseconds within that second
  (0 to 999999999). The location does not take part in \<^verbatim>\<open>Unix\<close>, \<^verbatim>\<open>IsZero\<close>,
  \<^verbatim>\<open>After\<close> or \<^verbatim>\<open>Before\<close>, and neither does the monotonic clock reading when one of
  the two instants was decoded from storage. The zero \<^verbatim>\<open>time.Time{}\<close> is
  January 1, year 1, 00:00:00 UTC, which is 62135596800 seconds before 1970.
\<close>

record time =
  sec :: int
  nsec :: int

definition Unix :: "time \<Rightarrow> int" where
  "Unix t = sec t"

definition IsZero :: "time \<Rightarrow> bool" where
  "IsZero t = (sec t = - 62135596800 \<and> nsec t = 0)"

definition After :: "time \<Rightarrow> time \<Rightarrow> bool" where
  "After t u = (sec t > sec u \<or> (sec t = sec u \<and> nsec t > nsec u))"

definition Before :: "time \<Rightarrow> time \<Rightarrow> bool" where
  "Before t u = (sec t < sec u \<or> (sec t = sec u \<and> nsec t < nsec u))"

section \<open>Formatting\<close>

text \<open>\<^verbatim>\<open>fmt.Sprintf("%d", i)\<close>: the decimal digits of \<open>i\<close>, after a minus sign when \<open>i < 0\<close>.\<close>

definition digit_char :: "nat \<Rightarrow> char" where
  "digit_char d = ''0123456789'' ! d"

fun dec_nat :: "nat \<Rightarrow> string" where
  "dec_nat n = (if n < 10 then [digit_char n] else dec_nat (n div 10) @ [digit_char (n mod 10)])"

declare dec_nat.simps [simp del]

definition Sprintf_d :: "int \<Rightarrow> string" where
  "Sprintf_d i = (if i < 0 then CHR ''-'' # dec_nat (nat (- i)) else dec_nat (nat i))"

text \<open>Reading a decimal string back, as the specification's "decimal string" is understood.\<close>

definition digit_value :: "char \<Rightarrow> nat" where
  "digit_value c = of_char c - 48"

definition decimal_nat :: "string \<Rightarrow> nat" where
  "decimal_nat cs = foldl (\<lambda>a c. 10 * a + digit_value c) 0 cs"

definition decimal_value :: "string \<Rightarrow> int" where
  "decimal_value cs =
     (if cs \<noteq> [] \<and> hd cs = CHR ''-'' then - int (decimal_nat (tl cs))
      else int (decimal_nat cs))"

section \<open>Nick data\<close>

text \<open>
  \<^verbatim>\<open>type NickData struct\<close>. The field \<^verbatim>\<open>Id\<close> is written \<open>Id'\<close>, since \<open>Id\<close> is the
  identity relation of HOL.
\<close>

record NickData =
  Id' :: bytes
  Nick :: string
  Time :: time
  PublicKey :: bytes
  Signature :: bytes

text \<open>\<^verbatim>\<open>bytes.Buffer\<close>: the zero buffer is empty, both writes append.\<close>

definition WriteString :: "bytes \<Rightarrow> string \<Rightarrow> bytes" where
  "WriteString buf s = buf @ s"

definition Write :: "bytes \<Rightarrow> bytes \<Rightarrow> bytes" where
  "Write buf b = buf @ b"

definition GetDataToSign :: "NickData \<Rightarrow> bytes" where
  "GetDataToSign n =
     (let buf = [];
          buf = WriteString buf (Sprintf_d (Unix (Time n)));
          buf = Write buf (Id' n);
          buf = WriteString buf (Nick n)
      in buf)"

section \<open>The libraries the package calls\<close>

text \<open>\<^verbatim>\<open>const SigningHash = crypto.SHA512\<close>\<close>

datatype hash = SHA512

definition SigningHash :: hash where
  "SigningHash = SHA512"

text \<open>
  The functions of other repositories that the package calls are parameters of the model:
  \<^item> \<open>NewPublicKey\<close> is \<^verbatim>\<open>scrypto.NewPublicKey\<close>, which decodes a public key or fails;
  \<^item> \<open>Hash\<close> is the key's method \<^verbatim>\<open>Hash\<close>, which gives the node id of the key or fails;
  \<^item> \<open>PublicKey_Validate\<close> is the key's method \<^verbatim>\<open>Validate(data, signature, hash)\<close>,
    nil when the signature verifies;
  \<^item> \<open>ValidateId\<close> is \<^verbatim>\<open>node.ValidateId\<close>;
  \<^item> \<open>Marshal\<close> and \<open>Unmarshal\<close> are \<^verbatim>\<open>json.Marshal\<close> and \<^verbatim>\<open>json.Unmarshal\<close> at
    type \<^verbatim>\<open>NickData\<close>;
  \<^item> \<open>PutRefused\<close> is the error with which bolt's \<^verbatim>\<open>Bucket.Put\<close> refuses a key and a
    value (an empty or oversized key, an oversized value), \<open>None\<close> when it accepts them.
  \<open>'pk\<close> is the type of decoded public keys.
\<close>

record 'pk env =
  NewPublicKey :: "bytes \<Rightarrow> error + 'pk"
  Hash :: "'pk \<Rightarrow> error + bytes"
  PublicKey_Validate :: "'pk \<Rightarrow> bytes \<Rightarrow> bytes \<Rightarrow> hash \<Rightarrow> error option"
  ValidateId :: "bytes \<Rightarrow> bool"
  Marshal :: "NickData \<Rightarrow> error + bytes"
  Unmarshal :: "bytes \<Rightarrow> error + NickData"
  PutRefused :: "bytes \<Rightarrow> bytes \<Rightarrow> error option"

text \<open>
  Modelled from the spec: \<^verbatim>\<open>node.CompareId\<close> belongs to the starlight library and is not
  among the sources. The specification treats identities as byte sequences that are
  opaque "beyond equality comparison", so the comparison is equality of the bytes.
\<close>

definition CompareId :: "bytes \<Rightarrow> bytes \<Rightarrow> bool" where
  "CompareId a b = (a = b)"

section \<open>Validation\<close>

text \<open>\<^verbatim>\<open>func (n NickData) Validate() error\<close>, check by check in the order of the source.\<close>

definition Validate :: "'pk env \<Rightarrow> NickData \<Rightarrow> error option" where
  "Validate env n =
     (case NewPublicKey env (PublicKey n) of
        Inl err \<Rightarrow> Some (Wrap err ''could not read the public key'')
      | Inr publicKey \<Rightarrow>
          if \<not> ValidateId env (Id' n) then Some (ErrorString ''id is invalid'')
          else
            (case Hash env publicKey of
               Inl err \<Rightarrow> Some (Wrap err ''could not hash the public key'')
             | Inr id' \<Rightarrow>
                 if \<not> CompareId id' (Id' n) then
                   Some (ErrorString ''id does not match the public key'')
                 else
                   (case ValidateNick (Nick n) of
                      Some err \<Rightarrow> Some (Wrap err ''invalid nick'')
                    | None \<Rightarrow>
                        if IsZero (Time n) then Some (ErrorString ''time is zero'')
                        else
                          (case PublicKey_Validate env publicKey (GetDataToSign n)
                                  (Signature n) SigningHash of
                             Some err \<Rightarrow> Some (Wrap err ''could not validate the signature'')
                           | None \<Rightarrow> None))))"

section \<open>The repository\<close>

text \<open>
  The bolt database is a family of buckets, each a map from keys to values. A
  bucket that was never written is empty, so \<^verbatim>\<open>CreateBucketIfNotExists\<close> changes
  nothing and \<^verbatim>\<open>tx.Bucket\<close> always finds its bucket.
\<close>

type_synonym bucket = "bytes \<rightharpoonup> bytes"

type_synonym db = "string \<Rightarrow> bucket"

definition nickDataBucket :: string where
  "nickDataBucket = ''nickdata''"

definition nicksBucket :: string where
  "nicksBucket = ''nicks''"

text \<open>
  \<^verbatim>\<open>NewBoltRepository\<close>. The argument is what \<^verbatim>\<open>bolt.Open\<close> finds at the path: an error, no
  file yet (a new database is created), or the database stored there.
\<close>

definition NewBoltRepository :: "error + db option \<Rightarrow> error + db" where
  "NewBoltRepository opened =
     (case opened of
        Inl err \<Rightarrow> Inl (Wrap err ''could not open the database'')
      | Inr None \<Rightarrow> Inr (\<lambda>name. Map.empty)
      | Inr (Some d) \<Rightarrow> Inr d)"

text \<open>
  A transaction works on a copy of the buckets. \<open>oplog\<close> records the bucket operations
  the transaction function has carried out, in order; the Go code keeps no such record,
  it is there to state which keys are read and written.
\<close>

datatype op = OpGet string bytes | OpPut string bytes bytes

record tx =
  buckets :: db
  oplog :: "op list"

definition bucket_Get :: "string \<Rightarrow> bytes \<Rightarrow> tx \<Rightarrow> bytes option \<times> tx" where
  "bucket_Get b k t = (buckets t b k, t\<lparr>oplog := oplog t @ [OpGet b k]\<rparr>)"

definition bucket_Put :: "'pk env \<Rightarrow> string \<Rightarrow> bytes \<Rightarrow> bytes \<Rightarrow> tx \<Rightarrow> error option \<times> tx" where
  "bucket_Put env b k v t =
     (case PutRefused env k v of
        Some err \<Rightarrow> (Some err, t)
      | None \<Rightarrow>
          (None, t\<lparr>buckets := (buckets t)(b := (buckets t b)(k \<mapsto> v)),
                   oplog := oplog t @ [OpPut b k v]\<rparr>))"

text \<open>
  \<^verbatim>\<open>db.Update\<close> commits the transaction when the function returns nil and rolls it back
  when the function returns an error; \<^verbatim>\<open>db.View\<close> never changes the database.
\<close>

definition Update :: "(tx \<Rightarrow> error option \<times> tx) \<Rightarrow> db \<Rightarrow> error option \<times> db" where
  "Update fn d =
     (case fn \<lparr>buckets = d, oplog = []\<rparr> of
        (None, t) \<Rightarrow> (None, buckets t)
      | (Some err, t) \<Rightarrow> (Some err, d))"

definition View :: "(tx \<Rightarrow> 'a \<times> tx) \<Rightarrow> db \<Rightarrow> 'a" where
  "View fn d = fst (fn \<lparr>buckets = d, oplog = []\<rparr>)"

definition unmarshalNickData :: "'pk env \<Rightarrow> bytes \<Rightarrow> error + NickData" where
  "unmarshalNickData env data =
     (case Unmarshal env data of
        Inl err \<Rightarrow> Inl (Wrap err ''json unmarshal failed'')
      | Inr nickData \<Rightarrow> Inr nickData)"

text \<open>\<^verbatim>\<open>getNickData\<close>: \<open>Inr None\<close> is the result \<^verbatim>\<open>nil, nil\<close>.\<close>

definition getNickData :: "'pk env \<Rightarrow> tx \<Rightarrow> bytes \<Rightarrow> (error + NickData option) \<times> tx" where
  "getNickData env t id' =
     (case bucket_Get nickDataBucket id' t of
        (Some v, t') \<Rightarrow>
          (case unmarshalNickData env v of Inl err \<Rightarrow> (Inl err, t') | Inr n \<Rightarrow> (Inr (Some n), t'))
      | (None, t') \<Rightarrow> (Inr None, t'))"

text \<open>\<^verbatim>\<open>Get\<close>: \<open>Inl err\<close> is \<^verbatim>\<open>nil, err\<close>, \<open>Inr None\<close> is \<^verbatim>\<open>nil, nil\<close>.\<close>

definition Get :: "'pk env \<Rightarrow> db \<Rightarrow> bytes \<Rightarrow> error + NickData option" where
  "Get env d id' =
     (if \<not> ValidateId env id' then Inl InvalidNodeIdErr
      else View (\<lambda>t. getNickData env t id') d)"

text \<open>The function that \<^verbatim>\<open>Put\<close> passes to \<^verbatim>\<open>db.Update\<close>.\<close>

definition Put_tx :: "'pk env \<Rightarrow> NickData \<Rightarrow> bytes \<Rightarrow> tx \<Rightarrow> error option \<times> tx" where
  "Put_tx env nickData val t =
     (case bucket_Get nicksBucket (Nick nickData) t of
        (existingId, t1) \<Rightarrow>
          if (case existingId of
                Some e \<Rightarrow> \<not> CompareId e (Id' nickData)
              | None \<Rightarrow> False)
          then (Some NickConflictErr, t1)
          else
            (case getNickData env t1 (Id' nickData) of
               (Inl err, t2) \<Rightarrow>
                 (Some (Wrap err ''error retrieving the previous nick data''), t2)
             | (Inr previousNickData, t2) \<Rightarrow>
                 if (case previousNickData of
                       Some p \<Rightarrow> After (Time p) (Time nickData)
                     | None \<Rightarrow> False)
                 then (Some NewerNickDataPresentErr, t2)
                 else
                   (case bucket_Put env nicksBucket (Id' nickData) val t2 of
                      (Some err, t3) \<Rightarrow> (Some (Wrap err ''nicks bucket put failed''), t3)
                    | (None, t3) \<Rightarrow>
                        (case bucket_Put env nickDataBucket (Id' nickData) val t3 of
                           (Some err, t4) \<Rightarrow>
                             (Some (Wrap err ''nick data bucket put failed''), t4)
                         | (None, t4) \<Rightarrow> (None, t4)))))"

text \<open>\<^verbatim>\<open>Put\<close>: the error returned, and the database afterwards.\<close>

definition Put :: "'pk env \<Rightarrow> NickData \<Rightarrow> db \<Rightarrow> error option \<times> db" where
  "Put env nickData d =
     (case Validate env nickData of
        Some err \<Rightarrow> (Some InvalidNickDataErr, d)
      | None \<Rightarrow>
          (case Marshal env nickData of
             Inl err \<Rightarrow> (Some (Wrap err ''marshaling nick data failed''), d)
           | Inr val \<Rightarrow>
               (case Update (Put_tx env nickData val) d of
                  (Some err, d') \<Rightarrow>
                    if err = NickConflictErr \<or> err = NewerNickDataPresentErr then (Some err, d')
                    else (Some (Wrap err ''update failed''), d')
                | (None, d') \<Rightarrow> (None, d'))))"

section \<open>Conditions on a claim and a database\<close>

text \<open>
  The two conditions that \<^verbatim>\<open>Put\<close> tests inside its transaction, as predicates on the
  database: the lookup of the nickname in the nicks bucket finds an entry that is not the
  claim's id, and the nick data stored for the claim's id decodes to a claim with a later
  time.
\<close>

definition nick_conflict :: "db \<Rightarrow> NickData \<Rightarrow> bool" where
  "nick_conflict d n =
     (case d nicksBucket (Nick n) of
        Some e \<Rightarrow> \<not> CompareId e (Id' n)
      | None \<Rightarrow> False)"

definition newer_present :: "'pk env \<Rightarrow> db \<Rightarrow> NickData \<Rightarrow> bool" where
  "newer_present env d n =
     (case d nickDataBucket (Id' n) of
        Some pv \<Rightarrow>
          (case Unmarshal env pv of
             Inr p \<Rightarrow> After (Time p) (Time n)
           | Inl err \<Rightarrow> False)
      | None \<Rightarrow> False)"

text \<open>The database after both writes of \<^verbatim>\<open>Put\<close>.\<close>

definition written :: "db \<Rightarrow> bytes \<Rightarrow> bytes \<Rightarrow> db" where
  "written d k v =
     d(nicksBucket := (d nicksBucket)(k \<mapsto> v), nickDataBucket := (d nickDataBucket)(k \<mapsto> v))"

text \<open>An operation of the log that is a write is a write under the key \<open>k\<close>.\<close>

fun writes_under :: "bytes \<Rightarrow> op \<Rightarrow> bool" where
  "writes_under k (OpGet b k') = True"
| "writes_under k (OpPut b k' v) = (k' = k)"

text \<open>A sequence of calls of \<^verbatim>\<open>Put\<close>, each on the database the call before it left.\<close>

fun Puts :: "'pk env \<Rightarrow> NickData list \<Rightarrow> db \<Rightarrow> db" where
  "Puts env [] d = d"
| "Puts env (n # ns) d = Puts env ns (snd (Put env n d))"

text \<open>Every key of the nicks bucket is an id that \<^verbatim>\<open>ValidateId\<close> accepts.\<close>

definition nicks_keys_are_ids :: "'pk env \<Rightarrow> db \<Rightarrow> bool" where
  "nicks_keys_are_ids env d = (\<forall>k. d nicksBucket k = None \<or> ValidateId env k)"

section \<open>A test double for the libraries\<close>

text \<open>
  Closed instances of the theorems below need concrete libraries. The double follows the
  fixtures of the package's tests (\<^verbatim>\<open>makeValidNickData\<close>, \<^verbatim>\<open>withValidSignature\<close>):
  keys are non-empty byte strings, the id of a key is the key padded to 32 bytes, a
  signature is the signed data behind a tag and the key, an id is valid when it is 32
  bytes long, and the encoding of a nick data lists its fields. As \<^verbatim>\<open>json.Marshal\<close>
  does for a \<^verbatim>\<open>time.Time\<close>, the encoding refuses a time whose year is outside
  0 to 9999: the year 0 begins 62167219200 seconds before 1970 and the year 10000 begins
  253402300800 seconds after. Decoding knows the encodings of the fixtures. Bolt refuses
  the empty key.
\<close>

definition test_id :: "bytes \<Rightarrow> bytes" where
  "test_id pk = take 32 (pk @ ''00000000000000000000000000000000'')"

definition test_signature :: "bytes \<Rightarrow> bytes \<Rightarrow> bytes" where
  "test_signature pk data = ''signed:'' @ pk @ '':'' @ data"

definition test_encode :: "NickData \<Rightarrow> bytes" where
  "test_encode n =
     ''{'' @ Id' n @ '','' @ Nick n @ '','' @ Sprintf_d (sec (Time n)) @ ''.'' @
     Sprintf_d (nsec (Time n)) @ '','' @ PublicKey n @ '','' @ Signature n @ ''}''"

definition year_in_range :: "time \<Rightarrow> bool" where
  "year_in_range t = (- 62167219200 \<le> sec t \<and> sec t < 253402300800)"

definition test_Marshal :: "NickData \<Rightarrow> error + bytes" where
  "test_Marshal n =
     (if year_in_range (Time n) then Inr (test_encode n)
      else Inl (ErrorString ''Time.MarshalJSON: year outside of range [0,9999]''))"

definition withValidSignature :: "bytes \<Rightarrow> NickData \<Rightarrow> NickData" where
  "withValidSignature pk nickData =
     nickData\<lparr>Signature := test_signature pk (GetDataToSign nickData)\<rparr>"

definition makeValidNickData :: "bytes \<Rightarrow> string \<Rightarrow> time \<Rightarrow> NickData" where
  "makeValidNickData pk nick t =
     withValidSignature pk
       \<lparr>Id' = test_id pk, Nick = nick, Time = t, PublicKey = pk, Signature = []\<rparr>"

definition keyA :: bytes where
  "keyA = ''key-of-node-A''"

definition keyB :: bytes where
  "keyB = ''key-of-node-B''"

definition idA :: bytes where
  "idA = ''key-of-node-A0000000000000000000''"

definition idB :: bytes where
  "idB = ''key-of-node-B0000000000000000000''"

text \<open>1989-01-01, 1990-01-01 and 1991-01-01, each at 01:01:01.000000001 UTC.\<close>

definition t1989 :: time where
  "t1989 = \<lparr>sec = 599619661, nsec = 1\<rparr>"

definition t1990 :: time where
  "t1990 = \<lparr>sec = 631155661, nsec = 1\<rparr>"

definition t1991 :: time where
  "t1991 = \<lparr>sec = 662691661, nsec = 1\<rparr>"

text \<open>10000-01-01 00:00:00 UTC, and 01:01:01 UTC on the last day of the year before year 0.\<close>

definition t10000 :: time where
  "t10000 = \<lparr>sec = 253402300800, nsec = 0\<rparr>"

definition t_before_year0 :: time where
  "t_before_year0 = \<lparr>sec = - 62167301939, nsec = 0\<rparr>"

definition claimA :: NickData where
  "claimA = makeValidNickData keyA ''nick'' t1990"

definition claimA_older :: NickData where
  "claimA_older = makeValidNickData keyA ''nick'' t1989"

definition claimA_newer :: NickData where
  "claimA_newer = makeValidNickData keyA ''nick'' t1991"

definition claimA_year10000 :: NickData where
  "claimA_year10000 = makeValidNickData keyA ''nick'' t10000"

definition claimA_before_year0 :: NickData where
  "claimA_before_year0 = makeValidNickData keyA ''nick'' t_before_year0"

definition claimB :: NickData where
  "claimB = makeValidNickData keyB ''nick'' t1990"

definition claim_unsigned :: NickData where
  "claim_unsigned = claimA\<lparr>Signature := []\<rparr>"

definition test_claims :: "NickData list" where
  "test_claims = [claimA, claimA_older, claimA_newer, claimB]"

definition test_decode :: "bytes \<Rightarrow> error + NickData" where
  "test_decode v =
     (case find (\<lambda>n. test_encode n = v) test_claims of
        Some n \<Rightarrow> Inr n
      | None \<Rightarrow> Inl (ErrorString ''invalid character''))"

definition test_env :: "bytes env" where
  "test_env =
     \<lparr>NewPublicKey = (\<lambda>b. if b = [] then Inl (ErrorString ''empty key'') else Inr b),
      Hash = (\<lambda>pk. Inr (test_id pk)),
      PublicKey_Validate = (\<lambda>pk data sig h.
        if sig = test_signature pk data then None
        else Some (ErrorString ''verification error'')),
      ValidateId = (\<lambda>b. length b = 32),
      Marshal = test_Marshal,
      Unmarshal = test_decode,
      PutRefused = (\<lambda>k v. if k = [] then Some (ErrorString ''key required'') else None)\<rparr>"

text \<open>
  A database in which the nickname of the fixtures is indexed under the id of node B and
  node A has stored its claim of 1991.
\<close>

definition db_taken :: db where
  "db_taken =
     (\<lambda>name. Map.empty)
       (nicksBucket := [''nick'' \<mapsto> idB],
        nickDataBucket := [idA \<mapsto> test_encode claimA_newer])"

text \<open>A database in which node A has stored its claim of 1991 and no nickname is indexed.\<close>

definition db_newer :: db where
  "db_newer = (\<lambda>name. Map.empty)(nickDataBucket := [idA \<mapsto> test_encode claimA_newer])"

text \<open>The database of a repository opened on a fresh path.\<close>

definition fresh_db :: db where
  "fresh_db = (\<lambda>name. Map.empty)"

section \<open>Matching\<close>

lemma full_match_NoMatch [simp]: "full_match NoMatch s = False"
  by (induction s) simp_all

lemma full_match_EmptyMatch [simp]: "full_match EmptyMatch s = (s = [])"
  by (cases s) simp_all

lemma full_match_Alternate [simp]:
  "full_match (Alternate r t) s = (full_match r s \<or> full_match t s)"
  by (induction s arbitrary: r t) simp_all

lemma full_match_Concat:
  "full_match (Concat r t) s = (\<exists>u v. s = u @ v \<and> full_match r u \<and> full_match t v)"
proof (induction s arbitrary: r)
  case Nil
  then show ?case by simp
next
  case (Cons c cs)
  have split: "(\<exists>u v. c # cs = u @ v \<and> full_match r u \<and> full_match t v) =
      (nullable r \<and> full_match t (c # cs) \<or>
       (\<exists>u v. cs = u @ v \<and> full_match (deriv c r) u \<and> full_match t v))"
  proof
    assume "\<exists>u v. c # cs = u @ v \<and> full_match r u \<and> full_match t v"
    then obtain u v where uv: "c # cs = u @ v" "full_match r u" "full_match t v"
      by blast
    show "nullable r \<and> full_match t (c # cs) \<or>
       (\<exists>u v. cs = u @ v \<and> full_match (deriv c r) u \<and> full_match t v)"
    proof (cases u)
      case Nil
      with uv show ?thesis by simp
    next
      case (Cons a u')
      with uv have "cs = u' @ v \<and> full_match (deriv c r) u' \<and> full_match t v" by simp
      then show ?thesis by blast
    qed
  next
    assume "nullable r \<and> full_match t (c # cs) \<or>
       (\<exists>u v. cs = u @ v \<and> full_match (deriv c r) u \<and> full_match t v)"
    then show "\<exists>u v. c # cs = u @ v \<and> full_match r u \<and> full_match t v"
    proof
      assume "nullable r \<and> full_match t (c # cs)"
      then have "c # cs = [] @ (c # cs) \<and> full_match r [] \<and> full_match t (c # cs)" by simp
      then show ?thesis by blast
    next
      assume "\<exists>u v. cs = u @ v \<and> full_match (deriv c r) u \<and> full_match t v"
      then obtain u v where "cs = u @ v" "full_match (deriv c r) u" "full_match t v" by blast
      then have "c # cs = (c # u) @ v \<and> full_match r (c # u) \<and> full_match t v" by simp
      then show ?thesis by blast
    qed
  qed
  show ?case
    unfolding split using Cons.IH [of "deriv c r"] by auto
qed

lemma one_char_prefix:
  "(\<exists>u v. s = u @ v \<and> (case u of [] \<Rightarrow> False | [c] \<Rightarrow> P c | _ \<Rightarrow> False) \<and> Q v) =
     (case s of [] \<Rightarrow> False | c # cs \<Rightarrow> P c \<and> Q cs)"
proof (cases s)
  case Nil
  then show ?thesis by simp
next
  case (Cons a cs)
  show ?thesis
  proof
    assume "\<exists>u v. s = u @ v \<and> (case u of [] \<Rightarrow> False | [c] \<Rightarrow> P c | _ \<Rightarrow> False) \<and> Q v"
    then obtain u v where uv: "s = u @ v"
      "(case u of [] \<Rightarrow> False | [c] \<Rightarrow> P c | _ \<Rightarrow> False)" "Q v" by blast
    from uv(2) obtain c where "u = [c]" "P c"
      by (auto split: list.splits)
    with uv Cons show "case s of [] \<Rightarrow> False | c # cs \<Rightarrow> P c \<and> Q cs" by simp
  next
    assume "case s of [] \<Rightarrow> False | c # cs \<Rightarrow> P c \<and> Q cs"
    with Cons have "s = [a] @ cs \<and> (case [a] of [] \<Rightarrow> False | [c] \<Rightarrow> P c | _ \<Rightarrow> False) \<and> Q cs"
      by simp
    then show "\<exists>u v. s = u @ v \<and> (case u of [] \<Rightarrow> False | [c] \<Rightarrow> P c | _ \<Rightarrow> False) \<and> Q v"
      by blast
  qed
qed

lemma full_match_CharClass:
  "full_match (CharClass rs) s = (case s of [] \<Rightarrow> False | [c] \<Rightarrow> in_class rs c | _ \<Rightarrow> False)"
  by (cases s) (auto split: list.splits)

lemma full_match_Star_CharClass:
  "full_match (Star (CharClass rs)) s = list_all (in_class rs) s"
  by (induction s) (simp_all add: full_match_Concat)

lemma full_match_Plus_CharClass:
  "full_match (Plus (CharClass rs)) s = (s \<noteq> [] \<and> list_all (in_class rs) s)"
  by (cases s) (simp_all add: Plus_def full_match_Concat full_match_Star_CharClass)

lemma full_match_Repeat_1:
  "full_match (Repeat 1 r) s = full_match r s"
  by (simp add: full_match_Concat)

lemma char_eq_code: "(c = d) = ((of_char c :: nat) = of_char d)"
  by simp

lemma in_range_upt:
  "in_range c (lo, hi) = ((of_char c :: nat) \<in> set [of_char lo ..< Suc (of_char hi)])"
  by (simp only: in_range.simps set_upt atLeastLessThanSuc_atLeastAtMost atLeastAtMost_iff)

lemma letter_class:
  "in_class [(CHR ''a'', CHR ''z''), (CHR ''A'', CHR ''Z'')] c = is_letter c"
proof -
  define n :: nat where "n = of_char c"
  have "is_letter c = (n \<in> set ([97..<Suc 122] @ [65..<Suc 90]))"
    unfolding is_letter_def n_def by (simp add: char_eq_code [of c] upt_rec)
  also have "\<dots> = in_class [(CHR ''a'', CHR ''z''), (CHR ''A'', CHR ''Z'')] c"
    unfolding in_class_def list_ex_iff n_def
    by (simp add: in_range_upt del: in_range.simps upt_Suc)
  finally show ?thesis by simp
qed

lemma digit_class: "in_class [(CHR ''0'', CHR ''9'')] c = is_digit c"
proof -
  define n :: nat where "n = of_char c"
  have "is_digit c = (n \<in> set [48..<Suc 57])"
    unfolding is_digit_def n_def by (simp add: char_eq_code [of c] upt_rec)
  also have "\<dots> = in_class [(CHR ''0'', CHR ''9'')] c"
    unfolding in_class_def list_ex_iff n_def
    by (simp add: in_range_upt del: in_range.simps upt_Suc)
  finally show ?thesis by simp
qed

lemma in_class_append: "in_class (rs @ rs') c = (in_class rs c \<or> in_class rs' c)"
  by (simp add: in_class_def)

lemma nick_char_class:
  "in_class [(CHR ''a'', CHR ''z''), (CHR ''A'', CHR ''Z''), (CHR ''0'', CHR ''9''),
             (CHR ''_'', CHR ''_''), (CHR ''-'', CHR ''-''),
             (CHR ''['', CHR ''[''), (CHR '']'', CHR '']'')] c = is_nick_char c"
proof -
  have single: "\<And>d. in_class [(d, d)] c = (c = d)"
    by (auto simp: in_class_def)
  have "in_class ([(CHR ''a'', CHR ''z''), (CHR ''A'', CHR ''Z'')] @ [(CHR ''0'', CHR ''9'')] @
          [(CHR ''_'', CHR ''_'')] @ [(CHR ''-'', CHR ''-'')] @
          [(CHR ''['', CHR ''['')] @ [(CHR '']'', CHR '']'')]) c = is_nick_char c"
    unfolding in_class_append letter_class digit_class single is_nick_char_def
    by auto
  then show ?thesis by simp
qed

lemma MatchString_nickRegexp:
  "MatchString nickRegexp s =
     (case s of [] \<Rightarrow> False | c # cs \<Rightarrow> is_letter c \<and> cs \<noteq> [] \<and> list_all is_nick_char cs)"
proof -
  have tail: "list_all (in_class [(CHR ''a'', CHR ''z''), (CHR ''A'', CHR ''Z''), (CHR ''0'', CHR ''9''),
             (CHR ''_'', CHR ''_''), (CHR ''-'', CHR ''-''),
             (CHR ''['', CHR ''[''), (CHR '']'', CHR '']'')]) = list_all is_nick_char"
    by (rule arg_cong [where f = list_all]) (rule ext, rule nick_char_class)
  have head: "in_class [(CHR ''a'', CHR ''z''), (CHR ''A'', CHR ''Z'')] = is_letter"
    by (rule ext) (rule letter_class)
  show ?thesis
    unfolding MatchString_def nickRegexp_def full_match_Concat [of _ "Plus _"]
      full_match_Repeat_1 full_match_CharClass full_match_Plus_CharClass tail head
    by (rule one_char_prefix)
qed

lemma ValidateNick_None_iff:
  "(ValidateNick s = None) =
     (3 \<le> length s \<and> length s \<le> 20 \<and>
      (case s of [] \<Rightarrow> False | c # cs \<Rightarrow> is_letter c \<and> list_all is_nick_char cs))"
  unfolding ValidateNick_def minNickLength_def maxNickLength_def MatchString_nickRegexp
  by (cases s) auto

text \<open>
  C6. \<^verbatim>\<open>ValidateNick s\<close> returns nil exactly when \<open>s\<close> is 3 to 20 bytes long, starts
  with a letter a-z or A-Z, and continues with letters, digits, underscore, hyphen or
  square brackets only. "aaa" and "a_-[]" are accepted, "aa" and "_bcde" are rejected.
\<close>

theorem ValidateNick_accepts_iff:
  "(ValidateNick s = None) =
     (3 \<le> length s \<and> length s \<le> 20 \<and>
      (case s of [] \<Rightarrow> False | c # cs \<Rightarrow> is_letter c \<and> list_all is_nick_char cs))
   \<and> ValidateNick ''aaa'' = None \<and> ValidateNick ''a_-[]'' = None
   \<and> ValidateNick ''aa'' \<noteq> None \<and> ValidateNick ''_bcde'' \<noteq> None"
proof -
  have "ValidateNick ''aaa'' = None"
    unfolding ValidateNick_None_iff by (simp add: is_letter_def is_nick_char_def)
  moreover have "ValidateNick ''a_-[]'' = None"
    unfolding ValidateNick_None_iff by (simp add: is_letter_def is_nick_char_def)
  moreover have "ValidateNick ''aa'' \<noteq> None"
    unfolding ValidateNick_None_iff by simp
  moreover have "ValidateNick ''_bcde'' \<noteq> None"
    unfolding ValidateNick_None_iff by (simp add: is_letter_def)
  ultimately show ?thesis using ValidateNick_None_iff [of s] by blast
qed

theorem ValidateNick_accepts_iff_witness:
  "ValidateNick ''user_name[laptop]'' = None \<and> ValidateNick ''1bcde'' \<noteq> None
   \<and> ValidateNick ''aaaaaaaaaaaaaaaaaaaaa'' \<noteq> None"
  using ValidateNick_accepts_iff [of "''user_name[laptop]''"]
    ValidateNick_accepts_iff [of "''1bcde''"]
    ValidateNick_accepts_iff [of "''aaaaaaaaaaaaaaaaaaaaa''"]
  by (simp add: is_letter_def is_nick_char_def is_digit_def)

section \<open>The cases of Put\<close>

lemma buckets_distinct [simp]: "nicksBucket \<noteq> nickDataBucket" "nickDataBucket \<noteq> nicksBucket"
  by (simp_all add: nicksBucket_def nickDataBucket_def)

lemma Put_invalid:
  "Validate env n = Some e \<Longrightarrow> Put env n d = (Some InvalidNickDataErr, d)"
  by (simp add: Put_def)

lemma Put_marshal_error:
  "Validate env n = None \<Longrightarrow> Marshal env n = Inl e \<Longrightarrow>
   Put env n d = (Some (Wrap e ''marshaling nick data failed''), d)"
  by (simp add: Put_def)

lemma Put_tx_conflict:
  "nick_conflict d n \<Longrightarrow>
   Put_tx env n v \<lparr>buckets = d, oplog = []\<rparr> =
     (Some NickConflictErr, \<lparr>buckets = d, oplog = [OpGet nicksBucket (Nick n)]\<rparr>)"
  by (simp add: Put_tx_def nick_conflict_def bucket_Get_def)

lemma Put_tx_newer:
  "\<not> nick_conflict d n \<Longrightarrow> newer_present env d n \<Longrightarrow>
   Put_tx env n v \<lparr>buckets = d, oplog = []\<rparr> =
     (Some NewerNickDataPresentErr,
      \<lparr>buckets = d, oplog = [OpGet nicksBucket (Nick n), OpGet nickDataBucket (Id' n)]\<rparr>)"
  by (auto simp add: Put_tx_def nick_conflict_def newer_present_def bucket_Get_def getNickData_def
        unmarshalNickData_def split: option.splits sum.splits)

lemma Put_tx_write:
  assumes "\<not> nick_conflict d n" "\<not> newer_present env d n"
    and "d nickDataBucket (Id' n) = None \<or> (\<exists>pv p. d nickDataBucket (Id' n) = Some pv \<and> Unmarshal env pv = Inr p)"
    and "PutRefused env (Id' n) v = None"
  shows "Put_tx env n v \<lparr>buckets = d, oplog = []\<rparr> =
     (None,
      \<lparr>buckets = written d (Id' n) v,
       oplog = [OpGet nicksBucket (Nick n), OpGet nickDataBucket (Id' n),
                OpPut nicksBucket (Id' n) v, OpPut nickDataBucket (Id' n) v]\<rparr>)"
  using assms
  by (auto simp add: Put_tx_def nick_conflict_def newer_present_def bucket_Get_def getNickData_def
        unmarshalNickData_def bucket_Put_def written_def split: option.splits sum.splits)

lemma Put_tx_success:
  assumes "Put_tx env n v \<lparr>buckets = d, oplog = []\<rparr> = (None, t)"
  shows "t = \<lparr>buckets = written d (Id' n) v,
       oplog = [OpGet nicksBucket (Nick n), OpGet nickDataBucket (Id' n),
                OpPut nicksBucket (Id' n) v, OpPut nickDataBucket (Id' n) v]\<rparr>"
  using assms
  by (auto simp add: Put_tx_def bucket_Get_def getNickData_def
        unmarshalNickData_def bucket_Put_def written_def split: option.splits sum.splits if_splits)

lemma Put_conflict:
  "Validate env n = None \<Longrightarrow> Marshal env n = Inr v \<Longrightarrow> nick_conflict d n \<Longrightarrow>
   Put env n d = (Some NickConflictErr, d)"
  by (simp add: Put_def Update_def Put_tx_conflict)

lemma Put_newer:
  "Validate env n = None \<Longrightarrow> Marshal env n = Inr v \<Longrightarrow> \<not> nick_conflict d n \<Longrightarrow>
   newer_present env d n \<Longrightarrow> Put env n d = (Some NewerNickDataPresentErr, d)"
  by (simp add: Put_def Update_def Put_tx_newer)

lemma Put_write:
  assumes "Validate env n = None" "Marshal env n = Inr v"
    and "\<not> nick_conflict d n" "\<not> newer_present env d n"
    and "d nickDataBucket (Id' n) = None \<or> (\<exists>pv p. d nickDataBucket (Id' n) = Some pv \<and> Unmarshal env pv = Inr p)"
    and "PutRefused env (Id' n) v = None"
  shows "Put env n d = (None, written d (Id' n) v)"
  using assms(1,2) Put_tx_write [OF assms(3-6)]
  by (simp add: Put_def Update_def)

lemma After_Before: "After t u = Before u t"
  by (auto simp: After_def Before_def)

lemma Before_irrefl: "\<not> Before t t"
  by (simp add: Before_def)

lemma Before_asym: "Before t u \<Longrightarrow> \<not> Before u t"
  by (auto simp: Before_def)

lemma Put_error_unchanged: "Put env n d = (Some e, d') \<Longrightarrow> d' = d"
  by (auto simp: Put_def Update_def split: option.splits sum.splits prod.splits if_splits)

section \<open>The nickname lookup never finds an entry\<close>

text \<open>
  The nicks bucket is written under ids only. When no id that \<^verbatim>\<open>ValidateId\<close> accepts
  is at the same time a valid nickname (an id has a fixed length that is no length of a
  nickname), the lookup under the nickname finds nothing in any database that calls of
  \<^verbatim>\<open>Put\<close> have built from an empty one, and \<^verbatim>\<open>NickConflictErr\<close> is never returned.
\<close>

lemma Validate_ValidateId: "Validate env n = None \<Longrightarrow> ValidateId env (Id' n)"
  by (auto simp: Validate_def split: sum.splits option.splits if_splits)

lemma Put_success:
  assumes "Put env n d = (None, d')"
  shows "Validate env n = None \<and> (\<exists>v. d' = written d (Id' n) v)"
proof -
  from assms have valid: "Validate env n = None"
    by (auto simp: Put_def split: option.splits)
  from assms obtain v where v: "Marshal env n = Inr v"
    by (auto simp: Put_def split: option.splits sum.splits)
  from assms v obtain t where t: "Put_tx env n v \<lparr>buckets = d, oplog = []\<rparr> = (None, t)"
    and d': "d' = buckets t"
    by (auto simp: Put_def Update_def split: option.splits sum.splits prod.splits if_splits)
  from Put_tx_success [OF t] d' have "d' = written d (Id' n) v" by simp
  with valid show ?thesis by blast
qed

lemma Put_cases:
  "snd (Put env n d) = d \<or>
   (Validate env n = None \<and> (\<exists>v. snd (Put env n d) = written d (Id' n) v))"
proof (cases "fst (Put env n d)")
  case None
  then have "Put env n d = (None, snd (Put env n d))" by (simp add: prod_eq_iff)
  from Put_success [OF this] show ?thesis by blast
next
  case (Some e)
  then have "Put env n d = (Some e, snd (Put env n d))" by (simp add: prod_eq_iff)
  from Put_error_unchanged [OF this] show ?thesis by simp
qed

lemma nicks_keys_are_ids_Put:
  assumes "nicks_keys_are_ids env d"
  shows "nicks_keys_are_ids env (snd (Put env n d))"
  using Put_cases [of env n d] assms Validate_ValidateId [of env n]
  by (auto simp: nicks_keys_are_ids_def written_def)

lemma nicks_keys_are_ids_Puts:
  "nicks_keys_are_ids env d \<Longrightarrow> nicks_keys_are_ids env (Puts env ns d)"
  by (induction ns arbitrary: d) (simp_all add: nicks_keys_are_ids_Put)

lemma Put_NickConflictErr:
  assumes "fst (Put env n d) = Some NickConflictErr"
  shows "Validate env n = None \<and> d nicksBucket (Nick n) \<noteq> None"
  using assms
  by (auto simp: Put_def Update_def Put_tx_def bucket_Get_def getNickData_def
      unmarshalNickData_def bucket_Put_def
      split: option.splits sum.splits prod.splits if_splits)

lemma NickConflictErr_never_returned:
  assumes ids: "\<And>k. ValidateId env k \<Longrightarrow> ValidateNick k \<noteq> None"
  shows "fst (Put env n (Puts env ns fresh_db)) \<noteq> Some NickConflictErr"
proof
  assume conflict: "fst (Put env n (Puts env ns fresh_db)) = Some NickConflictErr"
  have "nicks_keys_are_ids env fresh_db"
    by (simp add: nicks_keys_are_ids_def fresh_db_def)
  then have inv: "nicks_keys_are_ids env (Puts env ns fresh_db)"
    by (rule nicks_keys_are_ids_Puts)
  from Put_NickConflictErr [OF conflict]
  have valid: "Validate env n = None"
    and found: "Puts env ns fresh_db nicksBucket (Nick n) \<noteq> None"
    by simp_all
  from inv have "Puts env ns fresh_db nicksBucket (Nick n) = None \<or> ValidateId env (Nick n)"
    unfolding nicks_keys_are_ids_def by (rule spec)
  then have "ValidateId env (Nick n)"
  proof
    assume "Puts env ns fresh_db nicksBucket (Nick n) = None"
    with found show ?thesis by simp
  qed
  then have "ValidateNick (Nick n) \<noteq> None" by (rule ids)
  moreover from valid have "ValidateNick (Nick n) = None"
    by (auto simp: Validate_def split: sum.splits option.splits if_splits)
  ultimately show False by simp
qed

section \<open>Decimal strings\<close>

lemma digit_value_digit_char: "d < 10 \<Longrightarrow> digit_value (digit_char d) = d"
proof -
  assume "d < 10"
  then have "d = 0 \<or> d = 1 \<or> d = 2 \<or> d = 3 \<or> d = 4 \<or> d = 5 \<or> d = 6 \<or> d = 7 \<or> d = 8 \<or> d = 9"
    by arith
  then show ?thesis
    by (auto simp add: digit_value_def digit_char_def)
qed

lemma decimal_nat_snoc: "decimal_nat (cs @ [c]) = 10 * decimal_nat cs + digit_value c"
  by (simp add: decimal_nat_def)

lemma decimal_nat_dec_nat: "decimal_nat (dec_nat n) = n"
proof (induction n rule: dec_nat.induct)
  case (1 n)
  show ?case
  proof (cases "n < 10")
    case True
    then show ?thesis
      using digit_value_digit_char [of n]
      by (simp add: dec_nat.simps [of n] decimal_nat_def)
  next
    case False
    then have "decimal_nat (dec_nat (n div 10)) = n div 10" using 1 by simp
    then show ?thesis
      using False digit_value_digit_char [of "n mod 10"]
      by (simp add: dec_nat.simps [of n] decimal_nat_snoc)
  qed
qed

lemma digit_char_not_minus: "d < 10 \<Longrightarrow> digit_char d \<noteq> CHR ''-''"
proof -
  assume "d < 10"
  then have "d = 0 \<or> d = 1 \<or> d = 2 \<or> d = 3 \<or> d = 4 \<or> d = 5 \<or> d = 6 \<or> d = 7 \<or> d = 8 \<or> d = 9"
    by arith
  then show ?thesis
    by (auto simp add: digit_char_def)
qed

lemma dec_nat_head: "dec_nat n \<noteq> [] \<and> hd (dec_nat n) \<noteq> CHR ''-''"
proof (induction n rule: dec_nat.induct)
  case (1 n)
  show ?case
  proof (cases "n < 10")
    case True
    then show ?thesis
      using digit_char_not_minus [of n] by (simp add: dec_nat.simps [of n])
  next
    case False
    then show ?thesis
      using 1 by (simp add: dec_nat.simps [of n])
  qed
qed

lemma decimal_value_Sprintf_d: "decimal_value (Sprintf_d i) = i"
  using dec_nat_head [of "nat i"]
  by (simp add: decimal_value_def Sprintf_d_def decimal_nat_dec_nat)

section \<open>Fixtures\<close>

lemmas fixture_defs = claimA_def claimB_def claimA_older_def claimA_newer_def claim_unsigned_def
  makeValidNickData_def withValidSignature_def test_signature_def test_id_def keyA_def keyB_def
  idA_def idB_def t1989_def t1990_def t1991_def test_env_def test_encode_def test_decode_def
  test_claims_def fresh_db_def db_taken_def db_newer_def test_Marshal_def year_in_range_def
  t10000_def t_before_year0_def claimA_year10000_def claimA_before_year0_def

lemmas model_defs = GetDataToSign_def WriteString_def Write_def Sprintf_d_def Unix_def
  dec_nat.simps digit_char_def Validate_def CompareId_def IsZero_def SigningHash_def Put_def
  Put_tx_def Update_def View_def Get_def getNickData_def unmarshalNickData_def bucket_Get_def
  bucket_Put_def nicksBucket_def nickDataBucket_def After_def Before_def
  nick_conflict_def newer_present_def written_def NewBoltRepository_def

lemma ValidateNick_nick: "ValidateNick ''nick'' = None"
  unfolding ValidateNick_None_iff by (simp add: is_letter_def is_nick_char_def)

lemma ValidateNick_empty: "ValidateNick [] \<noteq> None"
  unfolding ValidateNick_None_iff by simp

lemma nick_conflict_db_taken: "nick_conflict db_taken claimA"
  by (simp add: fixture_defs model_defs)
lemma newer_present_db_taken: "newer_present test_env db_taken claimA"
  by (simp add: fixture_defs model_defs)
lemma newer_present_db_newer: "newer_present test_env db_newer claimA"
  by (simp add: fixture_defs model_defs)
lemma no_conflict_db_newer: "\<not> nick_conflict db_newer claimA"
  by (simp add: fixture_defs model_defs)
lemma Validate_claimA: "Validate test_env claimA = None"
  by (simp add: fixture_defs model_defs ValidateNick_nick)
lemma Validate_claimB: "Validate test_env claimB = None"
  by (simp add: fixture_defs model_defs ValidateNick_nick)
lemma Validate_claimA_older: "Validate test_env claimA_older = None"
  by (simp add: fixture_defs model_defs ValidateNick_nick)
lemma Validate_claimA_newer: "Validate test_env claimA_newer = None"
  by (simp add: fixture_defs model_defs ValidateNick_nick)
lemma Validate_claim_unsigned: "Validate test_env claim_unsigned \<noteq> None"
  by (simp add: fixture_defs model_defs ValidateNick_nick)
lemma Marshal_test_env:
  "Marshal test_env n =
     (if year_in_range (Time n) then Inr (test_encode n)
      else Inl (ErrorString ''Time.MarshalJSON: year outside of range [0,9999]''))"
  by (simp add: test_env_def test_Marshal_def)

lemma Marshal_claimA: "Marshal test_env claimA = Inr (test_encode claimA)"
  by (simp add: Marshal_test_env year_in_range_def claimA_def makeValidNickData_def
      withValidSignature_def t1990_def)

lemma Marshal_claimA_older: "Marshal test_env claimA_older = Inr (test_encode claimA_older)"
  by (simp add: Marshal_test_env year_in_range_def claimA_older_def makeValidNickData_def
      withValidSignature_def t1989_def)

lemma Marshal_claimA_newer: "Marshal test_env claimA_newer = Inr (test_encode claimA_newer)"
  by (simp add: Marshal_test_env year_in_range_def claimA_newer_def makeValidNickData_def
      withValidSignature_def t1991_def)

lemma Marshal_claimB: "Marshal test_env claimB = Inr (test_encode claimB)"
  by (simp add: Marshal_test_env year_in_range_def claimB_def makeValidNickData_def
      withValidSignature_def t1990_def)

lemma nick_conflict_unsigned: "nick_conflict db_taken claim_unsigned"
  by (simp add: fixture_defs model_defs)
lemma newer_present_unsigned: "newer_present test_env db_taken claim_unsigned"
  by (simp add: fixture_defs model_defs)

lemma Get_eq:
  "Get env d i =
     (if \<not> ValidateId env i then Inl InvalidNodeIdErr
      else case d nickDataBucket i of
             None \<Rightarrow> Inr None
           | Some v \<Rightarrow>
               (case Unmarshal env v of
                  Inl err \<Rightarrow> Inl (Wrap err ''json unmarshal failed'')
                | Inr n \<Rightarrow> Inr (Some n)))"
  by (simp add: Get_def View_def getNickData_def bucket_Get_def unmarshalNickData_def
        split: option.splits sum.splits)

lemma ValidateId_test_env: "ValidateId test_env i = (length i = 32)"
  by (simp add: test_env_def)

lemma Unmarshal_claimA: "Unmarshal test_env (test_encode claimA) = Inr claimA"
  by (simp add: test_env_def test_decode_def test_claims_def)

lemma Put_claimA_fresh: "Put test_env claimA fresh_db = (None, written fresh_db idA (test_encode claimA))"
proof -
  have "Id' claimA = idA" by (simp add: fixture_defs)
  moreover have "\<not> nick_conflict fresh_db claimA" by (simp add: nick_conflict_def fresh_db_def)
  moreover have "\<not> newer_present test_env fresh_db claimA" by (simp add: newer_present_def fresh_db_def)
  moreover have "fresh_db nickDataBucket (Id' claimA) = None" by (simp add: fresh_db_def)
  moreover have "PutRefused test_env idA (test_encode claimA) = None" by (simp add: test_env_def idA_def)
  ultimately show ?thesis
    using Put_write [of test_env claimA "test_encode claimA" fresh_db] Validate_claimA
      Marshal_claimA
    by simp
qed

lemma Id_claimA: "Id' claimA = idA" by (simp add: fixture_defs)
lemma Id_claimA_older: "Id' claimA_older = idA" by (simp add: fixture_defs)
lemma Id_claimA_newer: "Id' claimA_newer = idA" by (simp add: fixture_defs)
lemma Id_claimB: "Id' claimB = idB" by (simp add: fixture_defs)
lemma Nick_fixtures:
  "Nick claimA = ''nick''" "Nick claimA_older = ''nick''" "Nick claimA_newer = ''nick''"
  "Nick claimB = ''nick''"
  by (simp_all add: fixture_defs)
lemma Time_fixtures:
  "Time claimA = t1990" "Time claimA_older = t1989" "Time claimA_newer = t1991"
  "Time claimB = t1990"
  by (simp_all add: fixture_defs)
lemma ids_distinct: "idA \<noteq> idB" "idA \<noteq> ''nick''" "idB \<noteq> ''nick''"
  by (simp_all add: idA_def idB_def)
lemma PutRefused_test_env: "PutRefused test_env k v = (if k = [] then Some (ErrorString ''key required'') else None)"
  by (simp add: test_env_def)

lemma fresh_db_empty: "fresh_db b k = None"
  by (simp add: fresh_db_def)

lemma stored_after_claimA:
  "snd (Put test_env claimA fresh_db) nickDataBucket idA = Some (test_encode claimA)"
  "snd (Put test_env claimA fresh_db) nicksBucket idA = Some (test_encode claimA)"
  "snd (Put test_env claimA fresh_db) nicksBucket ''nick'' = None"
  "snd (Put test_env claimA fresh_db) nickDataBucket idB = None"
  using ids_distinct by (simp_all add: Put_claimA_fresh written_def fresh_db_empty)

lemma no_conflict_after_claimA:
  "Nick n = ''nick'' \<Longrightarrow> \<not> nick_conflict (snd (Put test_env claimA fresh_db)) n"
  by (simp add: nick_conflict_def stored_after_claimA)

lemma Before_fixtures: "Before t1989 t1990" "Before t1990 t1991"
  by (simp_all add: Before_def t1989_def t1990_def t1991_def)

lemma Put_claimB_after_claimA:
  "Put test_env claimB (snd (Put test_env claimA fresh_db)) =
     (None, written (snd (Put test_env claimA fresh_db)) idB (test_encode claimB))"
proof -
  let ?d = "snd (Put test_env claimA fresh_db)"
  have "\<not> nick_conflict ?d claimB"
    by (rule no_conflict_after_claimA) (simp add: Nick_fixtures)
  moreover have "?d nickDataBucket (Id' claimB) = None"
    by (simp add: Id_claimB stored_after_claimA)
  moreover from this have "\<not> newer_present test_env ?d claimB"
    by (simp add: newer_present_def)
  moreover have "PutRefused test_env (Id' claimB) (test_encode claimB) = None"
    by (simp add: PutRefused_test_env Id_claimB idB_def)
  ultimately show ?thesis
    using Put_write [of test_env claimB "test_encode claimB" ?d] Validate_claimB
      Marshal_claimB
    by (simp add: Id_claimB)
qed

lemma Unmarshal_claimB: "Unmarshal test_env (test_encode claimB) = Inr claimB"
  by (simp add: fixture_defs model_defs)

lemma Validate_claimA_year10000: "Validate test_env claimA_year10000 = None"
  by (simp add: fixture_defs model_defs ValidateNick_nick)

lemma Validate_claimA_before_year0: "Validate test_env claimA_before_year0 = None"
  by (simp add: fixture_defs model_defs ValidateNick_nick)

lemma Marshal_out_of_range:
  "Marshal test_env claimA_year10000 =
     Inl (ErrorString ''Time.MarshalJSON: year outside of range [0,9999]'')"
  "Marshal test_env claimA_before_year0 =
     Inl (ErrorString ''Time.MarshalJSON: year outside of range [0,9999]'')"
  by (simp_all add: Marshal_test_env year_in_range_def claimA_year10000_def
      claimA_before_year0_def makeValidNickData_def withValidSignature_def t10000_def
      t_before_year0_def)

lemma Id_out_of_range: "Id' claimA_year10000 = idA" "Id' claimA_before_year0 = idA"
  by (simp_all add: fixture_defs)

lemma Before_out_of_range:
  "Before (Time claimA) (Time claimA_year10000)"
  "Before (Time claimA_before_year0) (Time claimA)"
  by (simp_all add: Before_def claimA_def claimA_year10000_def claimA_before_year0_def
      makeValidNickData_def withValidSignature_def t1990_def t10000_def t_before_year0_def)

section \<open>The claims on validation and the signing payload\<close>

text \<open>
  C3. \<^verbatim>\<open>Validate\<close> returns nil exactly when the public key decodes, the id passes
  \<^verbatim>\<open>ValidateId\<close>, the id is the hash of the public key, the nick passes
  \<^verbatim>\<open>ValidateNick\<close>, the time is not the zero time, and the signature verifies over
  \<^verbatim>\<open>GetDataToSign\<close> with the public key and SHA-512. A claim that fails one of the checks
  gets an error.
\<close>

theorem Validate_accepts_iff:
  "(Validate env c = None) =
     (\<exists>pk. NewPublicKey env (PublicKey c) = Inr pk \<and>
           ValidateId env (Id' c) \<and>
           (\<exists>h. Hash env pk = Inr h \<and> h = Id' c) \<and>
           ValidateNick (Nick c) = None \<and>
           \<not> IsZero (Time c) \<and>
           PublicKey_Validate env pk (GetDataToSign c) (Signature c) SigningHash = None)"
  by (auto simp add: Validate_def CompareId_def split: sum.splits option.splits)

theorem Validate_accepts_iff_witness:
  "Validate test_env claimA = None \<and> Validate test_env claim_unsigned \<noteq> None
   \<and> Validate test_env (claimA\<lparr>Nick := []\<rparr>) \<noteq> None"
  using Validate_accepts_iff [of test_env claimA]
    Validate_accepts_iff [of test_env claim_unsigned]
    Validate_accepts_iff [of test_env "claimA\<lparr>Nick := []\<rparr>"]
  by (simp add: fixture_defs model_defs ValidateNick_nick ValidateNick_empty)

text \<open>
  C5. \<^verbatim>\<open>GetDataToSign\<close> returns the decimal string of the Unix seconds of the time,
  then the bytes of the id, then the bytes of the nick, and nothing else of the claim
  enters the result. The decimal string reads back as the number of seconds.
\<close>

theorem GetDataToSign_payload:
  "GetDataToSign c = Sprintf_d (Unix (Time c)) @ Id' c @ Nick c
   \<and> decimal_value (Sprintf_d (Unix (Time c))) = Unix (Time c)
   \<and> (Unix (Time c') = Unix (Time c) \<and> Id' c' = Id' c \<and> Nick c' = Nick c
        \<longrightarrow> GetDataToSign c' = GetDataToSign c)"
  by (simp add: GetDataToSign_def WriteString_def Write_def decimal_value_Sprintf_d)

theorem GetDataToSign_payload_witness:
  "GetDataToSign claimA = ''631155661'' @ idA @ ''nick''
   \<and> decimal_value ''631155661'' = 631155661
   \<and> GetDataToSign claim_unsigned = GetDataToSign claimA"
  using GetDataToSign_payload [of claimA claim_unsigned]
  by (simp add: fixture_defs model_defs decimal_value_def decimal_nat_def digit_value_def)

section \<open>The claims on the repository\<close>

text \<open>
  C7. A claim that fails \<^verbatim>\<open>Validate\<close> makes \<^verbatim>\<open>Put\<close> return \<^verbatim>\<open>InvalidNickDataErr\<close>
  and leave the database as it was, whatever the database holds, so also when the
  nickname is taken or a newer claim is stored. Of the errors of a valid claim that was
  encoded, the nickname conflict comes before the staleness, and the staleness before
  any refusal of the store to write.
\<close>

theorem Put_invalid_first:
  "(Validate env n \<noteq> None \<longrightarrow> Put env n d = (Some InvalidNickDataErr, d))
   \<and> (Validate env n = None \<and> Marshal env n = Inr v \<and> nick_conflict d n
        \<longrightarrow> Put env n d = (Some NickConflictErr, d))
   \<and> (Validate env n = None \<and> Marshal env n = Inr v \<and> \<not> nick_conflict d n \<and>
        newer_present env d n
        \<longrightarrow> Put env n d = (Some NewerNickDataPresentErr, d))"
  using Put_invalid [of env n _ d] Put_conflict [of env n v d] Put_newer [of env n v d]
  by auto

theorem Put_invalid_first_witness:
  "nick_conflict db_taken claim_unsigned \<and> newer_present test_env db_taken claim_unsigned
   \<and> Put test_env claim_unsigned db_taken = (Some InvalidNickDataErr, db_taken)
   \<and> nick_conflict db_taken claimA \<and> newer_present test_env db_taken claimA
   \<and> Put test_env claimA db_taken = (Some NickConflictErr, db_taken)
   \<and> Put test_env claimA db_newer = (Some NewerNickDataPresentErr, db_newer)"
proof -
  have "Put test_env claim_unsigned db_taken = (Some InvalidNickDataErr, db_taken)"
    using Put_invalid_first [where env = test_env and n = claim_unsigned and d = db_taken
        and v = "[]"] Validate_claim_unsigned
    by blast
  moreover have "Put test_env claimA db_taken = (Some NickConflictErr, db_taken)"
    using Put_invalid_first [where env = test_env and n = claimA and v = "test_encode claimA"
        and d = db_taken] Validate_claimA Marshal_claimA nick_conflict_db_taken
    by blast
  moreover have "Put test_env claimA db_newer = (Some NewerNickDataPresentErr, db_newer)"
    using Put_invalid_first [where env = test_env and n = claimA and v = "test_encode claimA"
        and d = db_newer] Validate_claimA Marshal_claimA no_conflict_db_newer
      newer_present_db_newer
    by blast
  ultimately show ?thesis
    using nick_conflict_unsigned newer_present_unsigned nick_conflict_db_taken
      newer_present_db_taken
    by blast
qed

text \<open>
  C8. \<^verbatim>\<open>Get\<close> returns \<^verbatim>\<open>InvalidNodeIdErr\<close> for an id that fails \<^verbatim>\<open>ValidateId\<close>.
  For a valid id it returns nil and no error when nothing is stored under the id, as in
  the database of a repository just created, and otherwise the claim that the stored
  value decodes to.
\<close>

theorem Get_result:
  "(\<not> ValidateId env i \<longrightarrow> Get env d i = Inl InvalidNodeIdErr)
   \<and> (ValidateId env i \<and> d nickDataBucket i = None \<longrightarrow> Get env d i = Inr None)
   \<and> (ValidateId env i \<and> d nickDataBucket i = Some v \<and> Unmarshal env v = Inr n
        \<longrightarrow> Get env d i = Inr (Some n))
   \<and> (ValidateId env i \<longrightarrow>
        (case NewBoltRepository (Inr None) of
           Inl err \<Rightarrow> False
         | Inr d0 \<Rightarrow> Get env d0 i = Inr None))"
  by (simp add: Get_eq NewBoltRepository_def)

theorem Get_result_witness:
  "Get test_env fresh_db ''abc'' = Inl InvalidNodeIdErr
   \<and> Get test_env fresh_db idA = Inr None
   \<and> Get test_env (snd (Put test_env claimA fresh_db)) idA = Inr (Some claimA)
   \<and> NewBoltRepository (Inr None) = Inr fresh_db"
proof -
  have "\<not> ValidateId test_env ''abc''" by (simp add: ValidateId_test_env)
  then have "Get test_env fresh_db ''abc'' = Inl InvalidNodeIdErr"
    using Get_result [where env = test_env and i = "''abc''" and d = fresh_db] by blast
  moreover have valid: "ValidateId test_env idA" by (simp add: ValidateId_test_env idA_def)
  have "fresh_db nickDataBucket idA = None" by (simp add: fresh_db_def)
  then have "Get test_env fresh_db idA = Inr None"
    using Get_result [where env = test_env and i = idA and d = fresh_db] valid by blast
  moreover have "snd (Put test_env claimA fresh_db) nickDataBucket idA = Some (test_encode claimA)"
    by (simp add: Put_claimA_fresh written_def)
  then have "Get test_env (snd (Put test_env claimA fresh_db)) idA = Inr (Some claimA)"
    using Get_result [where env = test_env and i = idA
        and d = "snd (Put test_env claimA fresh_db)" and v = "test_encode claimA" and n = claimA]
      valid Unmarshal_claimA by blast
  moreover have "NewBoltRepository (Inr None) = Inr fresh_db"
    by (simp add: NewBoltRepository_def fresh_db_def)
  ultimately show ?thesis by blast
qed

text \<open>
  C10. Every write that the transaction of \<^verbatim>\<open>Put\<close> makes, whether it commits or not,
  is under the id of the claim. A successful \<^verbatim>\<open>Put\<close> writes one and the same encoded
  value into the nicks bucket and into the nick data bucket, both times under the id,
  and writes nothing else: whatever the buckets hold under the nickname stays as it was.
  The only use of the nickname as a key is the lookup in the nicks bucket that opens the
  transaction.
\<close>

theorem Put_writes_under_id:
  "list_all (writes_under (Id' n)) (oplog (snd (Put_tx env n w \<lparr>buckets = d, oplog = []\<rparr>)))
   \<and> (Put env n d = (None, d') \<longrightarrow>
        (\<exists>v. Marshal env n = Inr v
           \<and> d' = d(nicksBucket := (d nicksBucket)(Id' n \<mapsto> v),
                    nickDataBucket := (d nickDataBucket)(Id' n \<mapsto> v))
           \<and> Put_tx env n v \<lparr>buckets = d, oplog = []\<rparr> =
               (None, \<lparr>buckets = d',
                       oplog = [OpGet nicksBucket (Nick n), OpGet nickDataBucket (Id' n),
                                OpPut nicksBucket (Id' n) v, OpPut nickDataBucket (Id' n) v]\<rparr>)
           \<and> (Nick n \<noteq> Id' n \<longrightarrow>
                d' nicksBucket (Nick n) = d nicksBucket (Nick n) \<and>
                d' nickDataBucket (Nick n) = d nickDataBucket (Nick n))))"
proof
  show "list_all (writes_under (Id' n))
      (oplog (snd (Put_tx env n w \<lparr>buckets = d, oplog = []\<rparr>)))"
    by (simp add: Put_tx_def bucket_Get_def getNickData_def unmarshalNickData_def
        bucket_Put_def split: option.splits sum.splits)
next
  show "Put env n d = (None, d') \<longrightarrow>
        (\<exists>v. Marshal env n = Inr v
           \<and> d' = d(nicksBucket := (d nicksBucket)(Id' n \<mapsto> v),
                    nickDataBucket := (d nickDataBucket)(Id' n \<mapsto> v))
           \<and> Put_tx env n v \<lparr>buckets = d, oplog = []\<rparr> =
               (None, \<lparr>buckets = d',
                       oplog = [OpGet nicksBucket (Nick n), OpGet nickDataBucket (Id' n),
                                OpPut nicksBucket (Id' n) v, OpPut nickDataBucket (Id' n) v]\<rparr>)
           \<and> (Nick n \<noteq> Id' n \<longrightarrow>
                d' nicksBucket (Nick n) = d nicksBucket (Nick n) \<and>
                d' nickDataBucket (Nick n) = d nickDataBucket (Nick n)))"
  proof
    assume put: "Put env n d = (None, d')"
    then obtain v where v: "Marshal env n = Inr v"
      by (auto simp: Put_def split: option.splits sum.splits)
    from put v obtain t where t: "Put_tx env n v \<lparr>buckets = d, oplog = []\<rparr> = (None, t)"
      and d': "d' = buckets t"
      by (auto simp: Put_def Update_def split: option.splits sum.splits prod.splits if_splits)
    from Put_tx_success [OF t] d' have "d' = written d (Id' n) v" by simp
    with t Put_tx_success [OF t] v show "\<exists>v. Marshal env n = Inr v
           \<and> d' = d(nicksBucket := (d nicksBucket)(Id' n \<mapsto> v),
                    nickDataBucket := (d nickDataBucket)(Id' n \<mapsto> v))
           \<and> Put_tx env n v \<lparr>buckets = d, oplog = []\<rparr> =
               (None, \<lparr>buckets = d',
                       oplog = [OpGet nicksBucket (Nick n), OpGet nickDataBucket (Id' n),
                                OpPut nicksBucket (Id' n) v, OpPut nickDataBucket (Id' n) v]\<rparr>)
           \<and> (Nick n \<noteq> Id' n \<longrightarrow>
                d' nicksBucket (Nick n) = d nicksBucket (Nick n) \<and>
                d' nickDataBucket (Nick n) = d nickDataBucket (Nick n))"
      by (auto simp: written_def)
  qed
qed

theorem Put_writes_under_id_witness:
  "Put test_env claimA fresh_db = (None, written fresh_db idA (test_encode claimA))
   \<and> Marshal test_env claimA = Inr (test_encode claimA)
   \<and> Put_tx test_env claimA (test_encode claimA) \<lparr>buckets = fresh_db, oplog = []\<rparr> =
       (None, \<lparr>buckets = written fresh_db idA (test_encode claimA),
               oplog = [OpGet nicksBucket ''nick'', OpGet nickDataBucket idA,
                        OpPut nicksBucket idA (test_encode claimA),
                        OpPut nickDataBucket idA (test_encode claimA)]\<rparr>)
   \<and> written fresh_db idA (test_encode claimA) nicksBucket ''nick'' = None"
  using Put_writes_under_id [where env = test_env and n = claimA and d = fresh_db
      and d' = "written fresh_db idA (test_encode claimA)" and w = "[]"]
    Put_claimA_fresh Marshal_claimA ids_distinct
  by (simp add: Id_claimA Nick_fixtures fresh_db_def)

text \<open>
  C4. Let a claim be stored for an id, with time \<open>T\<close>. A valid claim for that id which
  \<^verbatim>\<open>json.Marshal\<close> encodes, which meets no nickname conflict and which the store
  accepts, is refused with \<^verbatim>\<open>NewerNickDataPresentErr\<close> exactly when its time is strictly
  before \<open>T\<close>, and then the database stays as it was. With a time equal to \<open>T\<close> it is
  accepted, so the claim that is stored can be put again; with a time after \<open>T\<close> it is
  accepted and takes the place of the stored claim.
\<close>

theorem Put_freshness:
  assumes "Validate env n = None" and "Marshal env n = Inr v"
    and "d nickDataBucket (Id' n) = Some pv" and "Unmarshal env pv = Inr p"
    and "\<not> nick_conflict d n" and "PutRefused env (Id' n) v = None"
  shows "(fst (Put env n d) = Some NewerNickDataPresentErr) = Before (Time n) (Time p)
     \<and> (Before (Time n) (Time p) \<longrightarrow> Put env n d = (Some NewerNickDataPresentErr, d))
     \<and> (Time n = Time p \<longrightarrow> Put env n d = (None, written d (Id' n) v))
     \<and> (Before (Time p) (Time n) \<longrightarrow>
          Put env n d = (None, written d (Id' n) v) \<and>
          snd (Put env n d) nickDataBucket (Id' n) = Some v)"
proof -
  have newer: "newer_present env d n = Before (Time n) (Time p)"
    using assms(3,4) by (simp add: newer_present_def After_Before)
  have stale: "Put env n d = (Some NewerNickDataPresentErr, d)" if "Before (Time n) (Time p)"
    using that Put_newer [OF assms(1,2,5)] newer by simp
  have fresh: "Put env n d = (None, written d (Id' n) v)" if "\<not> Before (Time n) (Time p)"
    using that Put_write [OF assms(1,2,5) _ _ assms(6)] newer assms(3,4) by simp
  have "(fst (Put env n d) = Some NewerNickDataPresentErr) = Before (Time n) (Time p)"
    using stale fresh by (cases "Before (Time n) (Time p)") simp_all
  moreover have "Time n = Time p \<longrightarrow> Put env n d = (None, written d (Id' n) v)"
    using fresh Before_irrefl [of "Time p"] by auto
  moreover have "Before (Time p) (Time n) \<longrightarrow>
          Put env n d = (None, written d (Id' n) v) \<and>
          snd (Put env n d) nickDataBucket (Id' n) = Some v"
    using fresh Before_asym [of "Time p" "Time n"] by (auto simp: written_def)
  ultimately show ?thesis using stale by blast
qed

theorem Put_freshness_witness:
  "Put test_env claimA_older (snd (Put test_env claimA fresh_db)) =
     (Some NewerNickDataPresentErr, snd (Put test_env claimA fresh_db))
   \<and> fst (Put test_env claimA (snd (Put test_env claimA fresh_db))) = None
   \<and> fst (Put test_env claimA_newer (snd (Put test_env claimA fresh_db))) = None
   \<and> snd (Put test_env claimA_newer (snd (Put test_env claimA fresh_db))) nickDataBucket idA =
       Some (test_encode claimA_newer)"
proof -
  let ?d = "snd (Put test_env claimA fresh_db)"
  have refused: "PutRefused test_env idA v = None" for v
    by (simp add: PutRefused_test_env idA_def)
  have older: "Put test_env claimA_older ?d = (Some NewerNickDataPresentErr, ?d)"
    using Put_freshness [where env = test_env and n = claimA_older and d = ?d
        and v = "test_encode claimA_older" and pv = "test_encode claimA" and p = claimA]
      Validate_claimA_older Marshal_claimA_older stored_after_claimA(1)
      Unmarshal_claimA no_conflict_after_claimA [of claimA_older] refused Before_fixtures
    by (simp add: Id_claimA_older Nick_fixtures Time_fixtures)
  have same: "fst (Put test_env claimA ?d) = None"
    using Put_freshness [where env = test_env and n = claimA and d = ?d
        and v = "test_encode claimA" and pv = "test_encode claimA" and p = claimA]
      Validate_claimA Marshal_claimA stored_after_claimA(1)
      Unmarshal_claimA no_conflict_after_claimA [of claimA] refused
    by (simp add: Id_claimA Nick_fixtures)
  have newer: "fst (Put test_env claimA_newer ?d) = None \<and>
      snd (Put test_env claimA_newer ?d) nickDataBucket idA = Some (test_encode claimA_newer)"
    using Put_freshness [where env = test_env and n = claimA_newer and d = ?d
        and v = "test_encode claimA_newer" and pv = "test_encode claimA" and p = claimA]
      Validate_claimA_newer Marshal_claimA_newer stored_after_claimA(1)
      Unmarshal_claimA no_conflict_after_claimA [of claimA_newer] refused Before_fixtures
    by (auto simp add: Id_claimA_newer Nick_fixtures Time_fixtures)
  from older same newer show ?thesis by blast
qed

text \<open>
  Without the condition on the encoding the statement of C4 fails. \<^verbatim>\<open>Validate\<close> rejects
  no time but the zero time, while \<^verbatim>\<open>Put\<close> encodes the claim before it opens the
  transaction. Node A has stored its claim of 1990. Its valid claim dated in the year 10000
  is later and is not accepted, and the stored claim stays; its valid claim dated before
  the year 0 is earlier and is refused with the error of the encoding, not with
  \<^verbatim>\<open>NewerNickDataPresentErr\<close>.
\<close>

theorem Put_freshness_counterexample:
  "Get test_env (snd (Put test_env claimA fresh_db)) idA = Inr (Some claimA)
   \<and> Validate test_env claimA_year10000 = None \<and> Id' claimA_year10000 = idA
   \<and> Before (Time claimA) (Time claimA_year10000)
   \<and> Put test_env claimA_year10000 (snd (Put test_env claimA fresh_db)) =
       (Some (Wrap (ErrorString ''Time.MarshalJSON: year outside of range [0,9999]'')
                ''marshaling nick data failed''),
        snd (Put test_env claimA fresh_db))
   \<and> fst (Put test_env claimA_year10000 (snd (Put test_env claimA fresh_db))) \<noteq> None
   \<and> snd (Put test_env claimA_year10000 (snd (Put test_env claimA fresh_db)))
         nickDataBucket idA = Some (test_encode claimA)
   \<and> Validate test_env claimA_before_year0 = None \<and> Id' claimA_before_year0 = idA
   \<and> Before (Time claimA_before_year0) (Time claimA)
   \<and> fst (Put test_env claimA_before_year0 (snd (Put test_env claimA fresh_db))) \<noteq>
       Some NewerNickDataPresentErr"
proof -
  let ?d = "snd (Put test_env claimA fresh_db)"
  have stored: "Get test_env ?d idA = Inr (Some claimA)"
    using stored_after_claimA(1) Unmarshal_claimA
    by (simp add: Get_eq ValidateId_test_env idA_def)
  have late: "Put test_env claimA_year10000 ?d =
      (Some (Wrap (ErrorString ''Time.MarshalJSON: year outside of range [0,9999]'')
               ''marshaling nick data failed''), ?d)"
    using Validate_claimA_year10000 Marshal_out_of_range(1) by (rule Put_marshal_error)
  have early: "Put test_env claimA_before_year0 ?d =
      (Some (Wrap (ErrorString ''Time.MarshalJSON: year outside of range [0,9999]'')
               ''marshaling nick data failed''), ?d)"
    using Validate_claimA_before_year0 Marshal_out_of_range(2) by (rule Put_marshal_error)
  show ?thesis
    using stored Validate_claimA_year10000 Validate_claimA_before_year0 Id_out_of_range
      Before_out_of_range stored_after_claimA(1)
    by (simp add: late early)
qed

text \<open>
  C1. The documentation of \<^verbatim>\<open>Put\<close> promises \<^verbatim>\<open>NickConflictErr\<close> when the nickname of a
  valid claim is held by another id. On the fixtures the code does otherwise: node A
  puts its claim to the nickname "nick" into a fresh repository and holds it, then node B
  puts a valid claim to the same nickname, and \<^verbatim>\<open>Put\<close> accepts it. The nicks bucket is
  written under the id and read under the nickname, so the lookup finds nothing.
\<close>

theorem same_nick_second_id_accepted:
  "Validate test_env claimA = None \<and> Validate test_env claimB = None
   \<and> Nick claimA = ''nick'' \<and> Nick claimB = ''nick''
   \<and> Id' claimA = idA \<and> Id' claimB = idB \<and> idA \<noteq> idB
   \<and> fst (Put test_env claimA fresh_db) = None
   \<and> Get test_env (snd (Put test_env claimA fresh_db)) idA = Inr (Some claimA)
   \<and> fst (Put test_env claimB (snd (Put test_env claimA fresh_db))) = None
   \<and> fst (Put test_env claimB (snd (Put test_env claimA fresh_db))) \<noteq> Some NickConflictErr"
  using Validate_claimA Validate_claimB Nick_fixtures Id_claimA Id_claimB ids_distinct
    Put_claimA_fresh Put_claimB_after_claimA stored_after_claimA Unmarshal_claimA
  by (simp add: Get_eq ValidateId_test_env idA_def)

text \<open>
  C2. After the two calls of C1, in a repository that was opened on a fresh path, the
  ids of node A and of node B both hold a stored claim to the nickname "nick". The nicks
  bucket has no entry under the nickname; its entries stand under the two ids.
\<close>

theorem same_nick_held_by_two_ids:
  "NewBoltRepository (Inr None) = Inr fresh_db
   \<and> (let d = snd (Put test_env claimB (snd (Put test_env claimA fresh_db)))
      in Get test_env d idA = Inr (Some claimA) \<and> Get test_env d idB = Inr (Some claimB)
         \<and> Nick claimA = Nick claimB \<and> idA \<noteq> idB
         \<and> d nicksBucket (Nick claimA) = None
         \<and> d nicksBucket idA = Some (test_encode claimA)
         \<and> d nicksBucket idB = Some (test_encode claimB))"
proof -
  have "NewBoltRepository (Inr None) = Inr fresh_db"
    by (simp add: NewBoltRepository_def fresh_db_def)
  moreover have "ValidateId test_env idA" "ValidateId test_env idB"
    by (simp_all add: ValidateId_test_env idA_def idB_def)
  ultimately show ?thesis
    using Put_claimB_after_claimA stored_after_claimA Unmarshal_claimA Unmarshal_claimB
      Nick_fixtures ids_distinct
    by (simp add: Let_def Get_eq written_def)
qed

end
